theory Spec2Isabelle
  imports Complex_Main "HOL-Library.AList"
begin

section \<open>The setting cards of the settings page (src/ui/settings.ts)\<close>

text \<open>
  The part of the DOM that \<open>onSettingCardClick\<close> touches: every node may have a parent
  (\<open>header.parentNode\<close> is \<open>null\<close> for a detached node) and carries its attributes, a
  finite map from attribute names to string values. \<open>getAttribute\<close> answers \<open>null\<close>
  (here \<open>None\<close>) for an attribute that is absent.
\<close>

type_synonym node = nat

record dom =
  parentNode :: "node \<rightharpoonup> node"
  attributes :: "node \<Rightarrow> (string \<rightharpoonup> string)"

datatype js_error = TypeError

definition getAttribute :: "dom \<Rightarrow> node \<Rightarrow> string \<Rightarrow> string option" where
  "getAttribute d n name = attributes d n name"

definition removeAttribute :: "dom \<Rightarrow> node \<Rightarrow> string \<Rightarrow> dom" where
  "removeAttribute d n name = d\<lparr>attributes := (attributes d)(n := (attributes d n)(name := None))\<rparr>"

definition setAttribute :: "dom \<Rightarrow> node \<Rightarrow> string \<Rightarrow> string \<Rightarrow> dom" where
  "setAttribute d n name v = d\<lparr>attributes := (attributes d)(n := (attributes d n)(name \<mapsto> v))\<rparr>"

text \<open>
  \<^verbatim>\<open>
  function onSettingCardClick(header: Element) {
    const card = <HTMLElement>header.parentNode;
    const isOpen = card.getAttribute('open');
    isOpen === '' ? card.removeAttribute('open') : card.setAttribute('open', '');
  }
  \<close>
  Reading \<open>getAttribute\<close> of a \<open>null\<close> parent throws a TypeError.
\<close>

definition onSettingCardClick :: "node \<Rightarrow> dom \<Rightarrow> js_error + dom" where
  "onSettingCardClick header d =
     (case parentNode d header of
        None \<Rightarrow> Inl TypeError
      | Some cardNode \<Rightarrow>
          (let isOpen = getAttribute d cardNode ''open''
           in if isOpen = Some '''' then Inr (removeAttribute d cardNode ''open'')
              else Inr (setAttribute d cardNode ''open'' '''')))"

text \<open>Two clicks in a row; the second one runs only when the first did not throw.\<close>

definition clickTwice :: "node \<Rightarrow> dom \<Rightarrow> js_error + dom" where
  "clickTwice header d =
     (case onSettingCardClick header d of
        Inl e \<Rightarrow> Inl e
      | Inr d1 \<Rightarrow> onSettingCardClick header d1)"

section \<open>The background script: class Extension\<close>

subsection \<open>Data\<close>

text \<open>
  The interfaces of \<open>../definitions\<close> are not among the sources. What the class does with
  their values fixes the shapes used here: \<open>IPywalColors\<close> is indexed by number
  (\<open>pywalColors[template[color]]\<close>), so it is a list of colour strings; a palette
  (\<open>Partial<IPalette>\<close>) is an object from colour names to colour strings, kept as an
  association list read with \<open>map_of\<close>; a palette template sends a colour name to the
  index of a pywal colour; the three themes are objects from keys to colours. A
  colorscheme has the components the class reads: \<open>hash\<close>, \<open>browser\<close>,
  \<open>extension\<close> and \<open>duckduckgo\<close>.
\<close>

type_synonym color = string
type_synonym IPywalColors = "color list"
type_synonym IPalette = "(string \<times> color) list"
type_synonym IPaletteTemplate = "string \<rightharpoonup> int"
type_synonym IThemeTemplate = "(string \<times> string) list"
type_synonym IBrowserTheme = "(string \<times> color) list"
type_synonym IExtensionTheme = "(string \<times> color) list"
type_synonym IDuckDuckGoTheme = "(string \<times> color) list"

record IColorscheme =
  hash :: string
  browser :: IBrowserTheme
  extension :: IExtensionTheme
  duckduckgo :: IDuckDuckGoTheme

record IColorschemeTemplate =
  template_palette :: IPaletteTemplate
  template_browser :: IThemeTemplate

text \<open>
  A JavaScript number: a finite double is a real number and compares as one; \<open>NaN\<close>
  fails every comparison; the infinities lie beyond every finite bound.
\<close>

datatype js_number = Num real | NaN | PosInfinity | NegInfinity

fun js_ge :: "js_number \<Rightarrow> real \<Rightarrow> bool" where
  "js_ge (Num r) c = (r \<ge> c)"
| "js_ge NaN c = False"
| "js_ge PosInfinity c = True"
| "js_ge NegInfinity c = False"

fun js_le :: "js_number \<Rightarrow> real \<Rightarrow> bool" where
  "js_le (Num r) c = (r \<le> c)"
| "js_le NaN c = False"
| "js_le PosInfinity c = False"
| "js_le NegInfinity c = True"

text \<open>
  \<open>IOptionSetData\<close>: the option's name, the flag of a toggle and the value of a numeric
  option (\<open>undefined\<close> is \<open>None\<close>).
\<close>

record IOptionSetData =
  option :: string
  enabled :: bool
  val :: "js_number option"

datatype CSSTargets = UserChrome | UserContent

datatype extension_page = SETTINGS | UPDATE

subsection \<open>The state object\<close>

text \<open>
  Modelled from the spec: class \<open>State\<close> (\<open>./state\<close>) is not among the sources. The
  spec calls it "a flat persisted settings object"; accordingly it is a flat record, every
  getter the class \<open>Extension\<close> calls reads one field, and every setter overwrites the
  fields it is named after. \<open>null\<close> is \<open>None\<close>.
\<close>

record State =
  pywalColors :: "IPywalColors option"
  colorscheme :: "IColorscheme option"
  customColors :: "IPalette option"
  isApplied :: bool
  ddgThemeEnabled :: bool
  template :: IColorschemeTemplate
  cssFontSize :: js_number

definition getPywalColors :: "State \<Rightarrow> IPywalColors option" where
  "getPywalColors s = pywalColors s"

definition getColorscheme :: "State \<Rightarrow> IColorscheme option" where
  "getColorscheme s = colorscheme s"

definition getCustomColors :: "State \<Rightarrow> IPalette option" where
  "getCustomColors s = customColors s"

definition getApplied :: "State \<Rightarrow> bool" where
  "getApplied s = isApplied s"

definition getDDGThemeEnabled :: "State \<Rightarrow> bool" where
  "getDDGThemeEnabled s = ddgThemeEnabled s"

definition getTemplate :: "State \<Rightarrow> IColorschemeTemplate" where
  "getTemplate s = template s"

definition getCssFontSize :: "State \<Rightarrow> js_number" where
  "getCssFontSize s = cssFontSize s"

definition setColors :: "IPywalColors option \<Rightarrow> IColorscheme option \<Rightarrow> State \<Rightarrow> State" where
  "setColors pc cs s = s\<lparr>pywalColors := pc, colorscheme := cs\<rparr>"

definition setCustomColors :: "IPalette option \<Rightarrow> State \<Rightarrow> State" where
  "setCustomColors cc s = s\<lparr>customColors := cc\<rparr>"

definition setApplied :: "bool \<Rightarrow> State \<Rightarrow> State" where
  "setApplied b s = s\<lparr>isApplied := b\<rparr>"

definition setDDGThemeEnabled :: "bool \<Rightarrow> State \<Rightarrow> State" where
  "setDDGThemeEnabled b s = s\<lparr>ddgThemeEnabled := b\<rparr>"

subsection \<open>Calls on the platform\<close>

text \<open>
  Everything the class does outside its own state is a call on an object that is not
  among the sources: the browser's theme API, an extension page, the DuckDuckGo content
  script (\<open>DDG\<close>), the settings UI (\<open>UI\<close>), the native app, the console. The model
  records these calls, in order, with their arguments. An optional argument that a call
  leaves out is \<open>None\<close>.
\<close>

datatype effect =
    Theme_update IBrowserTheme
  | Theme_reset
  | Page_setTheme extension_page "IExtensionTheme option"
  | DDG_setTheme string IDuckDuckGoTheme
  | DDG_resetTheme
  | UI_sendDebuggingOutput string "bool option"
  | UI_sendPywalColors IPywalColors
  | UI_sendCustomColors "IPalette option"
  | UI_sendOption string bool
  | UI_sendNotification string string "bool option"
  | Native_requestFontSizeSet CSSTargets js_number
  | Native_connect
  | Console_log string

text \<open>
  The object itself: its state, its two extension pages (\<open>undefined\<close>, here \<open>None\<close>,
  until \<open>start\<close> creates them) and the calls made so far. A method call on a page that
  is still \<open>undefined\<close> throws a TypeError; the model then answers \<open>Inl TypeError\<close>.
\<close>

record Extension =
  state :: State
  settingsPage :: "extension_page option"
  updatePage :: "extension_page option"
  calls :: "effect list"

definition emit :: "effect \<Rightarrow> Extension \<Rightarrow> Extension" where
  "emit e x = x\<lparr>calls := calls x @ [e]\<rparr>"

definition withState :: "(State \<Rightarrow> State) \<Rightarrow> Extension \<Rightarrow> Extension" where
  "withState f x = x\<lparr>state := f (state x)\<rparr>"

definition andThen :: "js_error + 'a \<Rightarrow> ('a \<Rightarrow> js_error + 'b) \<Rightarrow> js_error + 'b" where
  "andThen r f = (case r of Inl e \<Rightarrow> Inl e | Inr a \<Rightarrow> f a)"

text \<open>The calls a method added to those made before it, and the calls of a result.\<close>

definition newCalls :: "Extension \<Rightarrow> Extension \<Rightarrow> effect list" where
  "newCalls x x' = drop (length (calls x)) (calls x')"

definition resultCalls :: "js_error + Extension \<Rightarrow> effect list" where
  "resultCalls r = (case r of Inl e \<Rightarrow> [] | Inr x \<Rightarrow> calls x)"

definition completes :: "js_error + Extension \<Rightarrow> bool" where
  "completes r = (case r of Inl e \<Rightarrow> False | Inr x \<Rightarrow> True)"

subsection \<open>Applying and resetting themes\<close>

definition page_setTheme ::
  "extension_page option \<Rightarrow> IExtensionTheme option \<Rightarrow> Extension \<Rightarrow> js_error + Extension" where
  "page_setTheme page extensionTheme x =
     (case page of
        None \<Rightarrow> Inl TypeError
      | Some p \<Rightarrow> Inr (emit (Page_setTheme p extensionTheme) x))"

text \<open>
  \<^verbatim>\<open>
  private updateExtensionPagesTheme(extensionTheme: IExtensionTheme) {
    this.settingsPage.setTheme(extensionTheme);
    this.updatePage.setTheme(extensionTheme);
  }
  \<close>
\<close>

definition updateExtensionPagesTheme :: "IExtensionTheme option \<Rightarrow> Extension \<Rightarrow> js_error + Extension" where
  "updateExtensionPagesTheme extensionTheme x =
     andThen (page_setTheme (settingsPage x) extensionTheme x)
       (\<lambda>x1. page_setTheme (updatePage x1) extensionTheme x1)"

definition setBrowserTheme :: "IBrowserTheme \<Rightarrow> Extension \<Rightarrow> Extension" where
  "setBrowserTheme browserTheme x = emit (Theme_update browserTheme) x"

text \<open>
  \<^verbatim>\<open>
  private resetThemes() {
    browser.theme.reset();
    this.updateExtensionPagesTheme(null);
    if (this.state.getDDGThemeEnabled()) {
      DDG.resetTheme();
    }
    this.state.setColors(null, null);
    this.state.setCustomColors(null);
    this.state.setApplied(false);
    UI.sendDebuggingOutput('Theme was disabled');
  }
  \<close>
\<close>

definition resetThemes :: "Extension \<Rightarrow> js_error + Extension" where
  "resetThemes x =
     andThen (updateExtensionPagesTheme None (emit Theme_reset x))
       (\<lambda>x1.
          let x2 = (if getDDGThemeEnabled (state x1) then emit DDG_resetTheme x1 else x1);
              x3 = withState (setColors None None) x2;
              x4 = withState (setCustomColors None) x3;
              x5 = withState (setApplied False) x4
          in Inr (emit (UI_sendDebuggingOutput ''Theme was disabled'' None) x5))"

text \<open>
  \<open>generateColorscheme\<close> and \<open>extendPywalColors\<close> (\<open>./colorscheme\<close>) are not among
  the sources; the methods that call them take them as the parameters \<open>gen\<close> and
  \<open>ext\<close>. The custom colours handed to \<open>updateThemes\<close> are optional: \<open>None\<close> stands
  for a missing argument as well as for \<open>null\<close>, which the method treats alike
  (\<open>customColors ? customColors : null\<close>; an object, even an empty one, is truthy).
  \<^verbatim>\<open>
  private updateThemes(pywalColors: IPywalColors, customColors?: Partial<IPalette>) {
    const template = this.state.getTemplate();
    const colorscheme = generateColorscheme(pywalColors, customColors, template);
    this.setBrowserTheme(colorscheme.browser);
    this.updateExtensionPagesTheme(colorscheme.extension);
    if (this.state.getDDGThemeEnabled()) {
      DDG.setTheme(colorscheme.hash, colorscheme.duckduckgo);
    }
    this.state.setColors(pywalColors, colorscheme);
    this.state.setCustomColors(customColors ? customColors : null);
    this.state.setApplied(true);
  }
  \<close>
\<close>

type_synonym generator = "IPywalColors \<Rightarrow> IPalette option \<Rightarrow> IColorschemeTemplate \<Rightarrow> IColorscheme"

definition updateThemes ::
  "generator \<Rightarrow> IPywalColors \<Rightarrow> IPalette option \<Rightarrow> Extension \<Rightarrow> js_error + Extension" where
  "updateThemes gen pywalColors' customColors' x =
     (let template' = getTemplate (state x);
          colorscheme' = gen pywalColors' customColors' template'
      in andThen (updateExtensionPagesTheme (Some (extension colorscheme'))
                    (setBrowserTheme (browser colorscheme') x))
           (\<lambda>x1.
              let x2 = (if getDDGThemeEnabled (state x1)
                        then emit (DDG_setTheme (hash colorscheme') (duckduckgo colorscheme')) x1
                        else x1);
                  x3 = withState (setColors (Some pywalColors') (Some colorscheme')) x2;
                  x4 = withState (setCustomColors
                         (case customColors' of Some c \<Rightarrow> Some c | None \<Rightarrow> None)) x3
              in Inr (withState (setApplied True) x4)))"

text \<open>
  \<^verbatim>\<open>
  private onPywalColorsReceived(pywalColors: IPywalColors) {
    const colors = extendPywalColors(pywalColors);
    UI.sendDebuggingOutput('Pywal colors was fetched from daemon and applied successfully');
    UI.sendPywalColors(colors);
    this.updateThemes(colors);
  }
  \<close>
\<close>

definition onPywalColorsReceived ::
  "(IPywalColors \<Rightarrow> IPywalColors) \<Rightarrow> generator \<Rightarrow> IPywalColors \<Rightarrow> Extension \<Rightarrow> js_error + Extension" where
  "onPywalColorsReceived ext gen pywalColors' x =
     (let colors = ext pywalColors';
          x1 = emit (UI_sendDebuggingOutput
                 ''Pywal colors was fetched from daemon and applied successfully'' None) x;
          x2 = emit (UI_sendPywalColors colors) x1
      in updateThemes gen colors None x2)"

subsection \<open>A new palette template\<close>

text \<open>
  \<open>pywalColors[template[color]]\<close>: \<open>undefined\<close> (\<open>None\<close>) when the template has no
  entry for the colour or the index is outside the array.
\<close>

definition templateColor :: "IPywalColors \<Rightarrow> IPaletteTemplate \<Rightarrow> string \<Rightarrow> color option" where
  "templateColor pc t c =
     (case t c of
        None \<Rightarrow> None
      | Some i \<Rightarrow> if 0 \<le> i \<and> nat i < length pc then Some (pc ! nat i) else None)"

text \<open>
  The loop \<open>for (const color in customColors)\<close> over the keys the object had when the
  loop began; \<open>===\<close> on two colours or \<open>undefined\<close> is equality of options.
  \<^verbatim>\<open>
    for (const color in customColors) {
      if (pywalColors[template[color]] === customColors[color]) {
        delete customColors[color];
      }
    }
  \<close>
\<close>

fun deleteTemplateColors :: "IPywalColors \<Rightarrow> IPaletteTemplate \<Rightarrow> string list \<Rightarrow> IPalette \<Rightarrow> IPalette" where
  "deleteTemplateColors pc t [] cc = cc"
| "deleteTemplateColors pc t (c # cs) cc =
     deleteTemplateColors pc t cs
       (if templateColor pc t c = map_of cc c then AList.delete c cc else cc)"

text \<open>
  \<^verbatim>\<open>
  private applyUpdatedPaletteTemplate(template: IPaletteTemplate) {
    const pywalColors = this.state.getPywalColors();
    const customColors = this.state.getCustomColors();
    if (!pywalColors) {
      return;
    }
    for (const color in customColors) { ... }
    this.updateThemes(pywalColors, customColors);
    UI.sendCustomColors(customColors);
  }
  \<close>
  An array is truthy even when empty, so \<open>!pywalColors\<close> holds for \<open>null\<close> only. A loop
  over \<open>null\<close> custom colours has no iteration. The loop edits the object the state
  holds; \<open>updateThemes\<close> then stores that same object, so the state ends with the edited
  colours either way.
\<close>

definition remainingCustomColors :: "IPywalColors \<Rightarrow> IPaletteTemplate \<Rightarrow> IPalette option \<Rightarrow> IPalette option" where
  "remainingCustomColors pc t customColors' =
     (case customColors' of
        None \<Rightarrow> None
      | Some cc \<Rightarrow> Some (deleteTemplateColors pc t (map fst cc) cc))"

definition applyUpdatedPaletteTemplate :: "generator \<Rightarrow> IPaletteTemplate \<Rightarrow> Extension \<Rightarrow> js_error + Extension" where
  "applyUpdatedPaletteTemplate gen t x =
     (let pywalColors' = getPywalColors (state x);
          customColors' = getCustomColors (state x)
      in case pywalColors' of
           None \<Rightarrow> Inr x
         | Some pc \<Rightarrow>
             (let remaining = remainingCustomColors pc t customColors'
              in andThen (updateThemes gen pc remaining x)
                   (\<lambda>x1. Inr (emit (UI_sendCustomColors remaining) x1))))"

subsection \<open>DuckDuckGo, the font size, and the start\<close>

text \<open>
  \<^verbatim>\<open>
  private applyDuckDuckGoTheme() {
    const colorscheme = this.state.getColorscheme();
    if (colorscheme) {
      DDG.setTheme(colorscheme.hash, colorscheme.duckduckgo);
    }
  }
  private setDDGEnabled({ option, enabled }: IOptionSetData) {
    const isEnabled = this.state.getDDGThemeEnabled();
    if (enabled && !isEnabled) {
      this.applyDuckDuckGoTheme();
    } else if (!enabled && isEnabled) {
      DDG.resetTheme();
    }
    UI.sendOption(option, enabled);
    this.state.setDDGThemeEnabled(enabled);
  }
  \<close>
\<close>

definition applyDuckDuckGoTheme :: "Extension \<Rightarrow> Extension" where
  "applyDuckDuckGoTheme x =
     (case getColorscheme (state x) of
        None \<Rightarrow> x
      | Some cs \<Rightarrow> emit (DDG_setTheme (hash cs) (duckduckgo cs)) x)"

definition setDDGEnabled :: "IOptionSetData \<Rightarrow> Extension \<Rightarrow> Extension" where
  "setDDGEnabled optionData x =
     (let isEnabled = getDDGThemeEnabled (state x);
          x1 = (if enabled optionData \<and> \<not> isEnabled then applyDuckDuckGoTheme x
                else if \<not> enabled optionData \<and> isEnabled then emit DDG_resetTheme x
                else x);
          x2 = emit (UI_sendOption (option optionData) (enabled optionData)) x1
      in withState (setDDGThemeEnabled (enabled optionData)) x2)"

text \<open>
  \<^verbatim>\<open>
  private setCssFontSize({ value }: IOptionSetData) {
    if (value !== undefined && value >= 10 && value <= 20) {
      // Currently, only userChrome uses the custom font size feature
      this.nativeApp.requestFontSizeSet(CSSTargets.UserChrome, value);
    } else {
      UI.sendNotification('Font size error', 'Invalid size or not set', true);
    }
  }
  \<close>
\<close>

definition setCssFontSize :: "IOptionSetData \<Rightarrow> Extension \<Rightarrow> Extension" where
  "setCssFontSize optionData x =
     (case val optionData of
        Some v \<Rightarrow>
          if js_ge v 10 \<and> js_le v 20 then emit (Native_requestFontSizeSet UserChrome v) x
          else emit (UI_sendNotification ''Font size error'' ''Invalid size or not set'' (Some True)) x
      | None \<Rightarrow>
          emit (UI_sendNotification ''Font size error'' ''Invalid size or not set'' (Some True)) x)"

text \<open>
  \<^verbatim>\<open>
  private setSavedColorscheme(colorscheme: IColorscheme) {
    console.log('Applying saved colorscheme');
    this.setBrowserTheme(colorscheme.browser);
    this.updateExtensionPagesTheme(colorscheme.extension);
    this.state.setApplied(true);
  }
  \<close>
\<close>

definition setSavedColorscheme :: "IColorscheme \<Rightarrow> Extension \<Rightarrow> js_error + Extension" where
  "setSavedColorscheme cs x =
     andThen (updateExtensionPagesTheme (Some (extension cs))
                (setBrowserTheme (browser cs) (emit (Console_log ''Applying saved colorscheme'') x)))
       (\<lambda>x1. Inr (withState (setApplied True) x1))"

text \<open>
  Modelled from the spec: \<open>State.load\<close> is not among the sources. The spec has the
  derived state persisted in a flat settings object and applied again after a restart;
  accordingly \<open>load\<close> makes the persisted object, the argument \<open>persisted\<close>, the state.
  \<^verbatim>\<open>
  public async start() {
    await this.state.load();
    this.settingsPage = new ExtensionPage(EXTENSION_PAGES.SETTINGS);
    this.updatePage = new ExtensionPage(EXTENSION_PAGES.UPDATE);
    const savedColorscheme = this.state.getColorscheme();
    if (savedColorscheme !== null) {
      this.setSavedColorscheme(savedColorscheme);
    }
    this.nativeApp.connect();
  }
  \<close>
\<close>

definition load :: "State \<Rightarrow> Extension \<Rightarrow> Extension" where
  "load persisted x = x\<lparr>state := persisted\<rparr>"

definition start :: "State \<Rightarrow> Extension \<Rightarrow> js_error + Extension" where
  "start persisted x =
     (let x1 = load persisted x;
          x2 = x1\<lparr>settingsPage := Some SETTINGS, updatePage := Some UPDATE\<rparr>;
          savedColorscheme = getColorscheme (state x2)
      in andThen (case savedColorscheme of
                    None \<Rightarrow> Inr x2
                  | Some cs \<Rightarrow> setSavedColorscheme cs x2)
           (\<lambda>x3. Inr (emit Native_connect x3)))"

section \<open>The settings page: dialogs and the overlay\<close>

text \<open>
  The page creates two dialogs, \<open>colorpicker\<close> and \<open>themepicker\<close>, and compares them by
  identity. The class \<open>Dialog\<close> and its subclasses are not among the sources: what
  \<open>open\<close>, \<open>close\<close> and \<open>getTarget\<close> do to the dialogs is a parameter of the model,
  a record of three functions over a state \<open>'ds\<close> of the dialogs, and every theorem
  holds for each choice of them. \<open>getTarget\<close> may answer \<open>null\<close> (\<open>None\<close>).
\<close>

datatype dialog = colorpicker | themepicker

record 'ds Dialog =
  dialog_open :: "dialog \<Rightarrow> node \<Rightarrow> 'ds \<Rightarrow> 'ds"
  dialog_close :: "dialog \<Rightarrow> 'ds \<Rightarrow> 'ds"
  dialog_getTarget :: "dialog \<Rightarrow> 'ds \<Rightarrow> node option"

text \<open>
  The variables of the page that \<open>openDialog\<close> and \<open>closeDialog\<close> work on:
  \<open>currentDialog\<close> (\<open>null\<close> is \<open>None\<close>), whether the overlay element is open, and the
  state of the dialogs.
\<close>

record 'ds settings_page =
  currentDialog :: "dialog option"
  overlayOpen :: bool
  dialogs :: 'ds

text \<open>
  Modelled from the spec: \<open>isOpen\<close>, \<open>open\<close> and \<open>close\<close> of \<open>./utils\<close> are not
  among the sources, and the spec leaves the settings page to "DOM wiring". They are
  taken by their names: \<open>open\<close> marks an element as open, \<open>close\<close> takes the mark away,
  \<open>isOpen\<close> reads it. For the overlay element the mark is the field \<open>overlayOpen\<close>.
\<close>

definition isOpen_overlay :: "'ds settings_page \<Rightarrow> bool" where
  "isOpen_overlay p = overlayOpen p"

definition open_overlay :: "'ds settings_page \<Rightarrow> 'ds settings_page" where
  "open_overlay p = p\<lparr>overlayOpen := True\<rparr>"

definition close_overlay :: "'ds settings_page \<Rightarrow> 'ds settings_page" where
  "close_overlay p = p\<lparr>overlayOpen := False\<rparr>"

text \<open>
  \<^verbatim>\<open>
  function closeDialog() {
    if (currentDialog !== null) {
      currentDialog.close();
      currentDialog = null;
    }
    if (isOpen(overlay)) {
      close(overlay);
    }
  }
  \<close>
\<close>

definition closeDialog :: "'ds Dialog \<Rightarrow> 'ds settings_page \<Rightarrow> 'ds settings_page" where
  "closeDialog D p =
     (let p1 = (case currentDialog p of
                  Some cur \<Rightarrow> p\<lparr>currentDialog := None, dialogs := dialog_close D cur (dialogs p)\<rparr>
                | None \<Rightarrow> p)
      in if isOpen_overlay p1 then close_overlay p1 else p1)"

text \<open>
  \<^verbatim>\<open>
  function openDialog(dialog: Dialog, target: HTMLElement) {
    const overlayOpen = isOpen(overlay);
    if (!overlayOpen) {
      open(overlay);
    }
    if (currentDialog === dialog) {
      if (dialog !== colorpicker || currentDialog.getTarget() === target) {
        closeDialog();
        return;
      }
    } else if (currentDialog !== null && currentDialog !== dialog) {
      currentDialog.close();
    }
    dialog.open(target);
    currentDialog = dialog;
  }
  \<close>
\<close>

definition openDialog :: "'ds Dialog \<Rightarrow> dialog \<Rightarrow> node \<Rightarrow> 'ds settings_page \<Rightarrow> 'ds settings_page" where
  "openDialog D dlg target p =
     (let p1 = (if \<not> isOpen_overlay p then open_overlay p else p)
      in if currentDialog p1 = Some dlg then
           (if dlg \<noteq> colorpicker \<or> dialog_getTarget D dlg (dialogs p1) = Some target
            then closeDialog D p1
            else p1\<lparr>currentDialog := Some dlg, dialogs := dialog_open D dlg target (dialogs p1)\<rparr>)
         else
           (let p2 = (case currentDialog p1 of
                        Some cur \<Rightarrow> p1\<lparr>dialogs := dialog_close D cur (dialogs p1)\<rparr>
                      | None \<Rightarrow> p1)
            in p2\<lparr>currentDialog := Some dlg, dialogs := dialog_open D dlg target (dialogs p2)\<rparr>))"

text \<open>
  The page as the script leaves it when it has loaded (\<open>let currentDialog: Dialog = null\<close>,
  the overlay closed), and a finite sequence of calls of the two functions, run in order.
\<close>

definition initialPage :: "'ds \<Rightarrow> 'ds settings_page" where
  "initialPage ds = \<lparr>currentDialog = None, overlayOpen = False, dialogs = ds\<rparr>"

datatype page_call = OpenDialog dialog node | CloseDialog

fun pageStep :: "'ds Dialog \<Rightarrow> page_call \<Rightarrow> 'ds settings_page \<Rightarrow> 'ds settings_page" where
  "pageStep D (OpenDialog dlg target) p = openDialog D dlg target p"
| "pageStep D CloseDialog p = closeDialog D p"

fun runCalls :: "'ds Dialog \<Rightarrow> page_call list \<Rightarrow> 'ds settings_page \<Rightarrow> 'ds settings_page" where
  "runCalls D [] p = p"
| "runCalls D (c # cs) p = runCalls D cs (pageStep D c p)"

section \<open>Sample values\<close>

text \<open>
  Concrete inputs on which the theorems below are exercised. The two functions of
  \<open>./colorscheme\<close> are parameters of the model; the samples stand for them where a
  concrete run is needed. \<open>sampleExtendPywalColors\<close> adds one derived colour;
  \<open>sampleGenerateColorscheme\<close> builds a one-colour palette from the template and lets
  the custom colours, when there are any, override it (\<open>Object.assign\<close>), as a
  generator that uses its second argument does.
\<close>

definition sample_dom :: dom where
  "sample_dom = \<lparr>parentNode = [1 \<mapsto> 0], attributes = (\<lambda>n. Map.empty)\<rparr>"

definition sampleTemplate :: IColorschemeTemplate where
  "sampleTemplate = \<lparr>template_palette = [''background'' \<mapsto> 0], template_browser = []\<rparr>"

definition sampleExtendPywalColors :: "IPywalColors \<Rightarrow> IPywalColors" where
  "sampleExtendPywalColors pc = pc @ [''#ffffff'']"

definition sampleGenerateColorscheme :: generator where
  "sampleGenerateColorscheme pc cc t =
     (let base = [(''background'',
                   (case templateColor pc (template_palette t) ''background'' of
                      None \<Rightarrow> '''' | Some c \<Rightarrow> c))];
          palette = AList.merge base (case cc of None \<Rightarrow> [] | Some c \<Rightarrow> c)
      in \<lparr>hash = concat (map snd palette), browser = palette, extension = palette,
          duckduckgo = palette\<rparr>)"

definition sampleState :: State where
  "sampleState = \<lparr>pywalColors = Some [''#000000'', ''#ffffff''], colorscheme = None,
     customColors = Some [(''background'', ''#112233'')], isApplied = False,
     ddgThemeEnabled = False, template = sampleTemplate, cssFontSize = Num 13\<rparr>"

definition startedExtension :: Extension where
  "startedExtension = \<lparr>state = sampleState, settingsPage = Some SETTINGS,
     updatePage = Some UPDATE, calls = []\<rparr>"

text \<open>
  A simple class of dialogs: the state of the dialogs is the target of each; \<open>open\<close>
  records the target, \<open>close\<close> forgets it.
\<close>

definition sampleDialog :: "(dialog \<Rightarrow> node option) Dialog" where
  "sampleDialog = \<lparr>dialog_open = (\<lambda>d t ds. ds(d := Some t)),
     dialog_close = (\<lambda>d ds. ds(d := None)),
     dialog_getTarget = (\<lambda>d ds. ds d)\<rparr>"

definition ddgExtension :: Extension where
  "ddgExtension = startedExtension\<lparr>state := setDDGThemeEnabled True sampleState\<rparr>"

definition sampleColorscheme :: IColorscheme where
  "sampleColorscheme = \<lparr>hash = ''5f1a'', browser = [(''toolbar'', ''#101010'')],
     extension = [(''background'', ''#202020'')], duckduckgo = [(''bg'', ''#303030'')]\<rparr>"

definition savedState :: State where
  "savedState = sampleState\<lparr>colorscheme := Some sampleColorscheme\<rparr>"

definition freshExtension :: Extension where
  "freshExtension = \<lparr>state = sampleState, settingsPage = None, updatePage = None, calls = []\<rparr>"

definition samplePaletteTemplate :: IPaletteTemplate where
  "samplePaletteTemplate = [''background'' \<mapsto> 0, ''foreground'' \<mapsto> 1]"

definition paletteExtension :: Extension where
  "paletteExtension = startedExtension\<lparr>state :=
     setCustomColors (Some [(''background'', ''#000000''), (''foreground'', ''#abcdef'')]) sampleState\<rparr>"

definition noColorsExtension :: Extension where
  "noColorsExtension = startedExtension\<lparr>state := setColors None None sampleState\<rparr>"

definition fontSize15 :: IOptionSetData where
  "fontSize15 = \<lparr>option = ''fontSize'', enabled = False, val = Some (Num 15)\<rparr>"

definition fontSize25 :: IOptionSetData where
  "fontSize25 = \<lparr>option = ''fontSize'', enabled = False, val = Some (Num 25)\<rparr>"

section \<open>How the methods compose\<close>

lemma emit_simps:
  "state (emit e x) = state x"
  "calls (emit e x) = calls x @ [e]"
  "settingsPage (emit e x) = settingsPage x"
  "updatePage (emit e x) = updatePage x"
  by (simp_all add: emit_def)

lemma withState_simps:
  "state (withState f x) = f (state x)"
  "calls (withState f x) = calls x"
  "settingsPage (withState f x) = settingsPage x"
  "updatePage (withState f x) = updatePage x"
  by (simp_all add: withState_def)

lemma updateExtensionPagesTheme_Inr:
  assumes "settingsPage x = Some sp" and "updatePage x = Some up"
  shows "updateExtensionPagesTheme t x
           = Inr (emit (Page_setTheme up t) (emit (Page_setTheme sp t) x))"
  using assms
  by (simp add: updateExtensionPagesTheme_def page_setTheme_def andThen_def emit_simps)

lemma updateExtensionPagesTheme_completes:
  "completes (updateExtensionPagesTheme t x) \<longleftrightarrow> settingsPage x \<noteq> None \<and> updatePage x \<noteq> None"
  by (auto simp: updateExtensionPagesTheme_def page_setTheme_def andThen_def emit_simps completes_def
      split: option.splits)

lemma updateThemes_result:
  assumes "settingsPage x = Some sp" and "updatePage x = Some up"
  shows "\<exists>x'. updateThemes gen pc cc x = Inr x'
           \<and> calls x' = calls x @
                [Theme_update (browser (gen pc cc (getTemplate (state x)))),
                 Page_setTheme sp (Some (extension (gen pc cc (getTemplate (state x))))),
                 Page_setTheme up (Some (extension (gen pc cc (getTemplate (state x)))))] @
                (if getDDGThemeEnabled (state x)
                 then [DDG_setTheme (hash (gen pc cc (getTemplate (state x))))
                         (duckduckgo (gen pc cc (getTemplate (state x))))]
                 else [])
           \<and> state x' = (state x)\<lparr>pywalColors := Some pc,
                 colorscheme := Some (gen pc cc (getTemplate (state x))),
                 customColors := cc, isApplied := True\<rparr>
           \<and> settingsPage x' = Some sp \<and> updatePage x' = Some up"
proof -
  have pages: "settingsPage (setBrowserTheme b x) = Some sp" "updatePage (setBrowserTheme b x) = Some up" for b
    using assms by (simp_all add: setBrowserTheme_def emit_simps)
  have cc: "(case cc of Some c \<Rightarrow> Some c | None \<Rightarrow> None) = cc"
    by (cases cc) simp_all
  show ?thesis
    unfolding updateThemes_def Let_def updateExtensionPagesTheme_Inr [OF pages] andThen_def cc
    using assms
    by (simp add: emit_simps withState_simps setBrowserTheme_def setColors_def
        setCustomColors_def setApplied_def getDDGThemeEnabled_def)
qed

section \<open>A palette from the daemon (C1)\<close>

lemma sample_gen_custom:
  "sampleGenerateColorscheme (sampleExtendPywalColors [''#000000''])
     (getCustomColors (state startedExtension)) (getTemplate (state startedExtension))
   = \<lparr>hash = ''#112233'', browser = [(''background'', ''#112233'')],
       extension = [(''background'', ''#112233'')], duckduckgo = [(''background'', ''#112233'')]\<rparr>"
  by (simp add: sampleGenerateColorscheme_def sampleExtendPywalColors_def startedExtension_def
      sampleState_def sampleTemplate_def getCustomColors_def getTemplate_def templateColor_def
      AList.merge_def Let_def)

lemma sample_gen_none:
  "sampleGenerateColorscheme (sampleExtendPywalColors [''#000000''])
     None (getTemplate (state startedExtension))
   = \<lparr>hash = ''#000000'', browser = [(''background'', ''#000000'')],
       extension = [(''background'', ''#000000'')], duckduckgo = [(''background'', ''#000000'')]\<rparr>"
  by (simp add: sampleGenerateColorscheme_def sampleExtendPywalColors_def startedExtension_def
      sampleState_def sampleTemplate_def getCustomColors_def getTemplate_def templateColor_def
      AList.merge_def Let_def)

text \<open>
  C1, as the code has it: for every raw palette received from the daemon once the
  extension pages exist, \<open>onPywalColorsReceived\<close> completes; it derives the extended
  colours, reports them to the UI, generates the colorscheme from the extended colours, no
  custom colours and the current template, applies its browser component through the
  browser theme API and its extension component to the settings page and to the update
  page; the stored custom colours are not consulted and end as \<open>null\<close>.
\<close>

theorem onPywalColorsReceived_applies:
  assumes "settingsPage x = Some sp" and "updatePage x = Some up"
  shows "\<exists>x'. onPywalColorsReceived ext gen raw x = Inr x'
           \<and> newCalls x x' =
                [UI_sendDebuggingOutput
                   ''Pywal colors was fetched from daemon and applied successfully'' None,
                 UI_sendPywalColors (ext raw),
                 Theme_update (browser (gen (ext raw) None (getTemplate (state x)))),
                 Page_setTheme sp (Some (extension (gen (ext raw) None (getTemplate (state x))))),
                 Page_setTheme up (Some (extension (gen (ext raw) None (getTemplate (state x)))))] @
                (if getDDGThemeEnabled (state x)
                 then [DDG_setTheme (hash (gen (ext raw) None (getTemplate (state x))))
                         (duckduckgo (gen (ext raw) None (getTemplate (state x))))]
                 else [])
           \<and> getColorscheme (state x') = Some (gen (ext raw) None (getTemplate (state x)))
           \<and> getCustomColors (state x') = None"
proof -
  define x2 where "x2 = emit (UI_sendPywalColors (ext raw))
     (emit (UI_sendDebuggingOutput
        ''Pywal colors was fetched from daemon and applied successfully'' None) x)"
  have pages: "settingsPage x2 = Some sp" "updatePage x2 = Some up"
    using assms by (simp_all add: x2_def emit_simps)
  have st: "state x2 = state x"
    by (simp add: x2_def emit_simps)
  have cl: "calls x2 = calls x @ [UI_sendDebuggingOutput
        ''Pywal colors was fetched from daemon and applied successfully'' None,
        UI_sendPywalColors (ext raw)]"
    by (simp add: x2_def emit_simps)
  from updateThemes_result [OF pages, of gen "ext raw" None]
  obtain x' where r: "updateThemes gen (ext raw) None x2 = Inr x'"
    and c: "calls x' = calls x2 @
                [Theme_update (browser (gen (ext raw) None (getTemplate (state x2)))),
                 Page_setTheme sp (Some (extension (gen (ext raw) None (getTemplate (state x2))))),
                 Page_setTheme up (Some (extension (gen (ext raw) None (getTemplate (state x2)))))] @
                (if getDDGThemeEnabled (state x2)
                 then [DDG_setTheme (hash (gen (ext raw) None (getTemplate (state x2))))
                         (duckduckgo (gen (ext raw) None (getTemplate (state x2))))]
                 else [])"
    and s: "state x' = (state x2)\<lparr>pywalColors := Some (ext raw),
                 colorscheme := Some (gen (ext raw) None (getTemplate (state x2))),
                 customColors := None, isApplied := True\<rparr>"
    by blast
  have "onPywalColorsReceived ext gen raw x = Inr x'"
    using r by (simp add: onPywalColorsReceived_def Let_def x2_def)
  moreover have "newCalls x x' =
                [UI_sendDebuggingOutput
                   ''Pywal colors was fetched from daemon and applied successfully'' None,
                 UI_sendPywalColors (ext raw),
                 Theme_update (browser (gen (ext raw) None (getTemplate (state x)))),
                 Page_setTheme sp (Some (extension (gen (ext raw) None (getTemplate (state x))))),
                 Page_setTheme up (Some (extension (gen (ext raw) None (getTemplate (state x)))))] @
                (if getDDGThemeEnabled (state x)
                 then [DDG_setTheme (hash (gen (ext raw) None (getTemplate (state x))))
                         (duckduckgo (gen (ext raw) None (getTemplate (state x))))]
                 else [])"
    unfolding newCalls_def c cl st by simp
  moreover have "getColorscheme (state x') = Some (gen (ext raw) None (getTemplate (state x)))"
    "getCustomColors (state x') = None"
    unfolding s st by (simp_all add: getColorscheme_def getCustomColors_def)
  ultimately show ?thesis by blast
qed

theorem onPywalColorsReceived_applies_witness:
  "settingsPage startedExtension = Some SETTINGS \<and> updatePage startedExtension = Some UPDATE
   \<and> (\<exists>x'. onPywalColorsReceived sampleExtendPywalColors sampleGenerateColorscheme
              [''#000000''] startedExtension = Inr x'
          \<and> newCalls startedExtension x' =
              [UI_sendDebuggingOutput
                 ''Pywal colors was fetched from daemon and applied successfully'' None,
               UI_sendPywalColors [''#000000'', ''#ffffff''],
               Theme_update [(''background'', ''#000000'')],
               Page_setTheme SETTINGS (Some [(''background'', ''#000000'')]),
               Page_setTheme UPDATE (Some [(''background'', ''#000000'')])]
          \<and> getCustomColors (state x') = None)"
proof -
  have p: "settingsPage startedExtension = Some SETTINGS" "updatePage startedExtension = Some UPDATE"
    by (simp_all add: startedExtension_def)
  have d: "\<not> getDDGThemeEnabled (state startedExtension)"
    by (simp add: startedExtension_def sampleState_def getDDGThemeEnabled_def)
  have e: "sampleExtendPywalColors [''#000000''] = [''#000000'', ''#ffffff'']"
    by (simp add: sampleExtendPywalColors_def)
  from onPywalColorsReceived_applies [OF p, of sampleExtendPywalColors sampleGenerateColorscheme
      "[''#000000'']"]
  show ?thesis
    unfolding sample_gen_none using p d e by auto
qed

text \<open>
  C1 as stated fails: with a custom background colour stored in the state, the browser
  theme generated from the extended colours, the stored custom colours and the template
  is not the theme that \<open>onPywalColorsReceived\<close> applies.
\<close>

theorem onPywalColorsReceived_stored_custom_counterexample:
  "completes (onPywalColorsReceived sampleExtendPywalColors sampleGenerateColorscheme
              [''#000000''] startedExtension)
   \<and> Theme_update (browser (sampleGenerateColorscheme (sampleExtendPywalColors [''#000000''])
        (getCustomColors (state startedExtension)) (getTemplate (state startedExtension))))
     \<notin> set (resultCalls (onPywalColorsReceived sampleExtendPywalColors sampleGenerateColorscheme
              [''#000000''] startedExtension))"
proof -
  have p: "settingsPage startedExtension = Some SETTINGS" "updatePage startedExtension = Some UPDATE"
    by (simp_all add: startedExtension_def)
  have d: "\<not> getDDGThemeEnabled (state startedExtension)"
    by (simp add: startedExtension_def sampleState_def getDDGThemeEnabled_def)
  have c0: "calls startedExtension = []"
    by (simp add: startedExtension_def)
  define x2 where "x2 = emit (UI_sendPywalColors (sampleExtendPywalColors [''#000000'']))
     (emit (UI_sendDebuggingOutput
        ''Pywal colors was fetched from daemon and applied successfully'' None) startedExtension)"
  have pages: "settingsPage x2 = Some SETTINGS" "updatePage x2 = Some UPDATE"
    using p by (simp_all add: x2_def emit_simps)
  have st: "state x2 = state startedExtension"
    by (simp add: x2_def emit_simps)
  have cl: "calls x2 = [UI_sendDebuggingOutput
        ''Pywal colors was fetched from daemon and applied successfully'' None,
        UI_sendPywalColors (sampleExtendPywalColors [''#000000''])]"
    by (simp add: x2_def emit_simps c0)
  from updateThemes_result [OF pages, of sampleGenerateColorscheme
      "sampleExtendPywalColors [''#000000'']" None]
  obtain x' where r: "updateThemes sampleGenerateColorscheme
        (sampleExtendPywalColors [''#000000'']) None x2 = Inr x'"
    and c: "calls x' = calls x2 @
       [Theme_update [(''background'', ''#000000'')],
        Page_setTheme SETTINGS (Some [(''background'', ''#000000'')]),
        Page_setTheme UPDATE (Some [(''background'', ''#000000'')])]"
    unfolding st sample_gen_none using d by auto
  have o: "onPywalColorsReceived sampleExtendPywalColors sampleGenerateColorscheme
              [''#000000''] startedExtension = Inr x'"
    using r by (simp add: onPywalColorsReceived_def Let_def x2_def)
  show ?thesis
    unfolding o sample_gen_custom
    by (simp add: completes_def resultCalls_def c cl)
qed

section \<open>Theme updates and DuckDuckGo (C3)\<close>

text \<open>
  The other path to the DuckDuckGo theme: switching the option on applies the stored
  colorscheme, switching it off resets the page.
\<close>

lemma setDDGEnabled_calls:
  "newCalls x (setDDGEnabled optionData x) =
     (if enabled optionData \<and> \<not> getDDGThemeEnabled (state x) then
        (case getColorscheme (state x) of
           None \<Rightarrow> []
         | Some cs \<Rightarrow> [DDG_setTheme (hash cs) (duckduckgo cs)])
      else if \<not> enabled optionData \<and> getDDGThemeEnabled (state x) then [DDG_resetTheme]
      else []) @ [UI_sendOption (option optionData) (enabled optionData)]"
  by (simp add: setDDGEnabled_def applyDuckDuckGoTheme_def Let_def newCalls_def emit_simps
      withState_simps split: option.splits)

text \<open>
  C3, as the code has it: a theme update by \<open>updateThemes\<close> sets the DuckDuckGo theme,
  from the hash and the duckduckgo component of the colorscheme it generated, exactly when
  the DuckDuckGo option is enabled in the state; with the option disabled it makes no
  call on the DuckDuckGo page at all.
\<close>

theorem updateThemes_duckduckgo:
  assumes "settingsPage x = Some sp" and "updatePage x = Some up"
  shows "\<exists>x'. updateThemes gen pc cc x = Inr x'
           \<and> (\<forall>h d. DDG_setTheme h d \<in> set (newCalls x x') \<longleftrightarrow>
                  getDDGThemeEnabled (state x)
                  \<and> h = hash (gen pc cc (getTemplate (state x)))
                  \<and> d = duckduckgo (gen pc cc (getTemplate (state x))))
           \<and> DDG_resetTheme \<notin> set (newCalls x x')"
proof -
  from updateThemes_result [OF assms, of gen pc cc]
  obtain x' where r: "updateThemes gen pc cc x = Inr x'"
    and c: "calls x' = calls x @
                [Theme_update (browser (gen pc cc (getTemplate (state x)))),
                 Page_setTheme sp (Some (extension (gen pc cc (getTemplate (state x))))),
                 Page_setTheme up (Some (extension (gen pc cc (getTemplate (state x)))))] @
                (if getDDGThemeEnabled (state x)
                 then [DDG_setTheme (hash (gen pc cc (getTemplate (state x))))
                         (duckduckgo (gen pc cc (getTemplate (state x))))]
                 else [])"
    by blast
  have "\<forall>h d. DDG_setTheme h d \<in> set (newCalls x x') \<longleftrightarrow>
                  getDDGThemeEnabled (state x)
                  \<and> h = hash (gen pc cc (getTemplate (state x)))
                  \<and> d = duckduckgo (gen pc cc (getTemplate (state x)))"
    unfolding newCalls_def c by auto
  moreover have "DDG_resetTheme \<notin> set (newCalls x x')"
    unfolding newCalls_def c by auto
  ultimately show ?thesis using r by blast
qed

theorem updateThemes_duckduckgo_witness:
  "settingsPage ddgExtension = Some SETTINGS \<and> updatePage ddgExtension = Some UPDATE
   \<and> getDDGThemeEnabled (state ddgExtension)
   \<and> (\<exists>x'. updateThemes sampleGenerateColorscheme [''#000000''] None ddgExtension = Inr x'
          \<and> DDG_setTheme ''#000000'' [(''background'', ''#000000'')] \<in> set (newCalls ddgExtension x'))"
proof -
  have p: "settingsPage ddgExtension = Some SETTINGS" "updatePage ddgExtension = Some UPDATE"
    by (simp_all add: ddgExtension_def startedExtension_def)
  have d: "getDDGThemeEnabled (state ddgExtension)"
    by (simp add: ddgExtension_def getDDGThemeEnabled_def setDDGThemeEnabled_def)
  have g: "sampleGenerateColorscheme [''#000000''] None (getTemplate (state ddgExtension))
    = \<lparr>hash = ''#000000'', browser = [(''background'', ''#000000'')],
       extension = [(''background'', ''#000000'')], duckduckgo = [(''background'', ''#000000'')]\<rparr>"
    by (simp add: sampleGenerateColorscheme_def ddgExtension_def setDDGThemeEnabled_def
      sampleState_def sampleTemplate_def getTemplate_def templateColor_def
      AList.merge_def Let_def)
  from updateThemes_duckduckgo [OF p, of sampleGenerateColorscheme "[''#000000'']" None]
  show ?thesis
    unfolding g using p d by auto
qed

text \<open>
  C3 as stated fails: with the DuckDuckGo option disabled, \<open>updateThemes\<close> completes a
  theme update and does not set the DuckDuckGo theme from the colorscheme it generated.
\<close>

theorem updateThemes_duckduckgo_disabled_counterexample:
  "completes (updateThemes sampleGenerateColorscheme [''#000000''] None startedExtension)
   \<and> DDG_setTheme
        (hash (sampleGenerateColorscheme [''#000000''] None (getTemplate (state startedExtension))))
        (duckduckgo (sampleGenerateColorscheme [''#000000''] None (getTemplate (state startedExtension))))
     \<notin> set (resultCalls (updateThemes sampleGenerateColorscheme [''#000000''] None startedExtension))"
proof -
  have p: "settingsPage startedExtension = Some SETTINGS" "updatePage startedExtension = Some UPDATE"
    by (simp_all add: startedExtension_def)
  have d: "\<not> getDDGThemeEnabled (state startedExtension)"
    by (simp add: startedExtension_def sampleState_def getDDGThemeEnabled_def)
  from updateThemes_result [OF p, of sampleGenerateColorscheme "[''#000000'']" None]
  obtain x' where r: "updateThemes sampleGenerateColorscheme [''#000000''] None startedExtension = Inr x'"
    and c: "calls x' = calls startedExtension @
       [Theme_update (browser (sampleGenerateColorscheme [''#000000''] None (getTemplate (state startedExtension)))),
        Page_setTheme SETTINGS (Some (extension (sampleGenerateColorscheme [''#000000''] None (getTemplate (state startedExtension))))),
        Page_setTheme UPDATE (Some (extension (sampleGenerateColorscheme [''#000000''] None (getTemplate (state startedExtension)))))]"
    using d by auto
  have c0: "calls startedExtension = []"
    by (simp add: startedExtension_def)
  show ?thesis
    unfolding r by (simp add: completes_def resultCalls_def c c0)
qed

section \<open>The state after a theme update and after a reset (C4)\<close>

lemma updateExtensionPagesTheme_pages:
  assumes "updateExtensionPagesTheme t x = Inr x1"
  shows "\<exists>sp up. settingsPage x = Some sp \<and> updatePage x = Some up"
  using assms
  by (auto simp: updateExtensionPagesTheme_def page_setTheme_def andThen_def emit_simps
      split: option.splits)

lemma updateThemes_pages:
  assumes "updateThemes gen pc cc x = Inr x'"
  shows "\<exists>sp up. settingsPage x = Some sp \<and> updatePage x = Some up"
proof -
  from assms obtain x1 where
    "updateExtensionPagesTheme (Some (extension (gen pc cc (getTemplate (state x)))))
       (setBrowserTheme (browser (gen pc cc (getTemplate (state x)))) x) = Inr x1"
    by (auto simp: updateThemes_def Let_def andThen_def split: sum.splits)
  from updateExtensionPagesTheme_pages [OF this] show ?thesis
    by (simp add: setBrowserTheme_def emit_simps)
qed

lemma resetThemes_result:
  assumes "settingsPage x = Some sp" and "updatePage x = Some up"
  shows "\<exists>x'. resetThemes x = Inr x'
           \<and> calls x' = calls x @ [Theme_reset, Page_setTheme sp None, Page_setTheme up None] @
                (if getDDGThemeEnabled (state x) then [DDG_resetTheme] else []) @
                [UI_sendDebuggingOutput ''Theme was disabled'' None]
           \<and> state x' = (state x)\<lparr>pywalColors := None, colorscheme := None,
                 customColors := None, isApplied := False\<rparr>"
proof -
  have pages: "settingsPage (emit Theme_reset x) = Some sp" "updatePage (emit Theme_reset x) = Some up"
    using assms by (simp_all add: emit_simps)
  show ?thesis
    unfolding resetThemes_def Let_def updateExtensionPagesTheme_Inr [OF pages] andThen_def
    by (simp add: emit_simps withState_simps setColors_def
        setCustomColors_def setApplied_def getDDGThemeEnabled_def)
qed

lemma resetThemes_pages:
  assumes "resetThemes x = Inr x'"
  shows "\<exists>sp up. settingsPage x = Some sp \<and> updatePage x = Some up"
proof -
  from assms obtain x1 where
    "updateExtensionPagesTheme None (emit Theme_reset x) = Inr x1"
    by (auto simp: resetThemes_def Let_def andThen_def split: sum.splits)
  from updateExtensionPagesTheme_pages [OF this] show ?thesis
    by (simp add: emit_simps)
qed

text \<open>
  C4: when \<open>updateThemes(pywalColors, customColors)\<close> completes, the state holds the given
  pywal colours, the colorscheme generated from them, the custom colours and the template
  current at the call, the given custom colours (\<open>null\<close> when none were passed) and the
  applied flag \<open>true\<close>, every other field being as before; when \<open>resetThemes\<close>
  completes, the pywal colours, the colorscheme and the custom colours are \<open>null\<close> and
  the applied flag is \<open>false\<close>. Both complete whenever the two extension pages exist.
\<close>

theorem updateThemes_resetThemes_state:
  "(updateThemes gen pc cc x = Inr x' \<longrightarrow>
      getPywalColors (state x') = Some pc
      \<and> getColorscheme (state x') = Some (gen pc cc (getTemplate (state x)))
      \<and> getCustomColors (state x') = cc
      \<and> getApplied (state x') = True
      \<and> state x' = (state x)\<lparr>pywalColors := Some pc,
            colorscheme := Some (gen pc cc (getTemplate (state x))),
            customColors := cc, isApplied := True\<rparr>)
   \<and> (resetThemes x = Inr x'' \<longrightarrow>
      getPywalColors (state x'') = None
      \<and> getColorscheme (state x'') = None
      \<and> getCustomColors (state x'') = None
      \<and> getApplied (state x'') = False)
   \<and> (settingsPage x \<noteq> None \<and> updatePage x \<noteq> None \<longrightarrow>
      completes (updateThemes gen pc cc x) \<and> completes (resetThemes x))"
proof (intro conjI impI)
  assume a: "updateThemes gen pc cc x = Inr x'"
  from updateThemes_pages [OF a] obtain sp up
    where p: "settingsPage x = Some sp" "updatePage x = Some up" by blast
  from updateThemes_result [OF p, of gen pc cc] a
  have s: "state x' = (state x)\<lparr>pywalColors := Some pc,
            colorscheme := Some (gen pc cc (getTemplate (state x))),
            customColors := cc, isApplied := True\<rparr>"
    by auto
  show "state x' = (state x)\<lparr>pywalColors := Some pc,
            colorscheme := Some (gen pc cc (getTemplate (state x))),
            customColors := cc, isApplied := True\<rparr>"
    by (rule s)
  show "getPywalColors (state x') = Some pc"
    unfolding s by (simp add: getPywalColors_def)
  show "getColorscheme (state x') = Some (gen pc cc (getTemplate (state x)))"
    unfolding s by (simp add: getColorscheme_def)
  show "getCustomColors (state x') = cc"
    unfolding s by (simp add: getCustomColors_def)
  show "getApplied (state x') = True"
    unfolding s by (simp add: getApplied_def)
next
  assume a: "resetThemes x = Inr x''"
  from resetThemes_pages [OF a] obtain sp up
    where p: "settingsPage x = Some sp" "updatePage x = Some up" by blast
  from resetThemes_result [OF p] a
  have s: "state x'' = (state x)\<lparr>pywalColors := None, colorscheme := None,
                 customColors := None, isApplied := False\<rparr>"
    by auto
  show "getPywalColors (state x'') = None"
    unfolding s by (simp add: getPywalColors_def)
  show "getColorscheme (state x'') = None"
    unfolding s by (simp add: getColorscheme_def)
  show "getCustomColors (state x'') = None"
    unfolding s by (simp add: getCustomColors_def)
  show "getApplied (state x'') = False"
    unfolding s by (simp add: getApplied_def)
next
  assume a: "settingsPage x \<noteq> None \<and> updatePage x \<noteq> None"
  then obtain sp up where p: "settingsPage x = Some sp" "updatePage x = Some up" by auto
  from updateThemes_result [OF p, of gen pc cc]
  show "completes (updateThemes gen pc cc x)"
    by (auto simp: completes_def)
  from resetThemes_result [OF p]
  show "completes (resetThemes x)"
    by (auto simp: completes_def)
qed

theorem updateThemes_resetThemes_state_witness:
  "(\<exists>x'. updateThemes sampleGenerateColorscheme [''#000000'']
            (Some [(''foreground'', ''#abcdef'')]) startedExtension = Inr x'
       \<and> getPywalColors (state x') = Some [''#000000'']
       \<and> getCustomColors (state x') = Some [(''foreground'', ''#abcdef'')]
       \<and> getApplied (state x') = True)
   \<and> (\<exists>x''. resetThemes startedExtension = Inr x''
       \<and> getPywalColors (state x'') = None
       \<and> getColorscheme (state x'') = None
       \<and> getCustomColors (state x'') = None
       \<and> getApplied (state x'') = False)"
proof -
  have p: "settingsPage startedExtension = Some SETTINGS" "updatePage startedExtension = Some UPDATE"
    by (simp_all add: startedExtension_def)
  from updateThemes_result [OF p] obtain x'
    where u: "updateThemes sampleGenerateColorscheme [''#000000'']
            (Some [(''foreground'', ''#abcdef'')]) startedExtension = Inr x'"
    by blast
  from resetThemes_result [OF p] obtain x''
    where r: "resetThemes startedExtension = Inr x''"
    by blast
  from updateThemes_resetThemes_state [of sampleGenerateColorscheme "[''#000000'']"
      "Some [(''foreground'', ''#abcdef'')]" startedExtension x' x''] u r
  show ?thesis
    by auto
qed

section \<open>The start of the background script (C2)\<close>

lemma setSavedColorscheme_result:
  assumes "settingsPage x = Some sp" and "updatePage x = Some up"
  shows "setSavedColorscheme cs x =
           Inr (withState (setApplied True)
             (emit (Page_setTheme up (Some (extension cs)))
               (emit (Page_setTheme sp (Some (extension cs)))
                 (emit (Theme_update (browser cs))
                   (emit (Console_log ''Applying saved colorscheme'') x)))))"
proof -
  have pages:
    "settingsPage (setBrowserTheme (browser cs) (emit (Console_log ''Applying saved colorscheme'') x)) = Some sp"
    "updatePage (setBrowserTheme (browser cs) (emit (Console_log ''Applying saved colorscheme'') x)) = Some up"
    using assms by (simp_all add: setBrowserTheme_def emit_simps)
  show ?thesis
    unfolding setSavedColorscheme_def updateExtensionPagesTheme_Inr [OF pages] andThen_def
    by (simp add: setBrowserTheme_def)
qed

text \<open>
  C2: \<open>start\<close> first loads the persisted state. If the stored colorscheme is not
  \<open>null\<close>, it applies that colorscheme's browser component to the browser theme and its
  extension component to the settings page and to the update page, and sets the applied
  flag; nothing else of the loaded state changes. If the stored colorscheme is \<open>null\<close>,
  the only call \<open>start\<close> makes is the connection to the native app, so no theme is
  applied, and the state is the loaded one.
\<close>

theorem start_reapplies_saved:
  "(getColorscheme persisted = Some cs \<longrightarrow>
      (\<exists>x'. start persisted x = Inr x'
         \<and> newCalls x x' =
              [Console_log ''Applying saved colorscheme'',
               Theme_update (browser cs),
               Page_setTheme SETTINGS (Some (extension cs)),
               Page_setTheme UPDATE (Some (extension cs)),
               Native_connect]
         \<and> state x' = setApplied True persisted
         \<and> getApplied (state x') = True))
   \<and> (getColorscheme persisted = None \<longrightarrow>
      (\<exists>x'. start persisted x = Inr x'
         \<and> newCalls x x' = [Native_connect]
         \<and> state x' = persisted))"
proof (intro conjI impI)
  define x2 where "x2 = (load persisted x)\<lparr>settingsPage := Some SETTINGS, updatePage := Some UPDATE\<rparr>"
  have pages: "settingsPage x2 = Some SETTINGS" "updatePage x2 = Some UPDATE"
    by (simp_all add: x2_def)
  have st: "state x2 = persisted" and cl: "calls x2 = calls x"
    by (simp_all add: x2_def load_def)
  have unf: "start persisted x =
     andThen (case getColorscheme persisted of
                None \<Rightarrow> Inr x2
              | Some cs \<Rightarrow> setSavedColorscheme cs x2)
       (\<lambda>x3. Inr (emit Native_connect x3))"
    unfolding start_def Let_def x2_def [symmetric] st ..
  {
    assume a: "getColorscheme persisted = Some cs"
    have "start persisted x =
            Inr (emit Native_connect (withState (setApplied True)
             (emit (Page_setTheme UPDATE (Some (extension cs)))
               (emit (Page_setTheme SETTINGS (Some (extension cs)))
                 (emit (Theme_update (browser cs))
                   (emit (Console_log ''Applying saved colorscheme'') x2))))))"
      unfolding unf using a setSavedColorscheme_result [OF pages, of cs]
      by (simp add: andThen_def)
    then show "\<exists>x'. start persisted x = Inr x'
         \<and> newCalls x x' =
              [Console_log ''Applying saved colorscheme'',
               Theme_update (browser cs),
               Page_setTheme SETTINGS (Some (extension cs)),
               Page_setTheme UPDATE (Some (extension cs)),
               Native_connect]
         \<and> state x' = setApplied True persisted
         \<and> getApplied (state x') = True"
      by (simp add: newCalls_def emit_simps withState_simps st cl getApplied_def setApplied_def)
  }
  {
    assume a: "getColorscheme persisted = None"
    have "start persisted x = Inr (emit Native_connect x2)"
      unfolding unf using a by (simp add: andThen_def)
    then show "\<exists>x'. start persisted x = Inr x'
         \<and> newCalls x x' = [Native_connect]
         \<and> state x' = persisted"
      by (simp add: newCalls_def emit_simps st cl)
  }
qed

theorem start_reapplies_saved_witness:
  "getColorscheme savedState = Some sampleColorscheme
   \<and> (\<exists>x'. start savedState freshExtension = Inr x'
          \<and> newCalls freshExtension x' =
               [Console_log ''Applying saved colorscheme'',
                Theme_update [(''toolbar'', ''#101010'')],
                Page_setTheme SETTINGS (Some [(''background'', ''#202020'')]),
                Page_setTheme UPDATE (Some [(''background'', ''#202020'')]),
                Native_connect]
          \<and> getApplied (state x') = True)
   \<and> getColorscheme sampleState = None
   \<and> (\<exists>x'. start sampleState freshExtension = Inr x'
          \<and> newCalls freshExtension x' = [Native_connect]
          \<and> state x' = sampleState)"
proof -
  have a: "getColorscheme savedState = Some sampleColorscheme"
    by (simp add: savedState_def getColorscheme_def)
  have b: "getColorscheme sampleState = None"
    by (simp add: sampleState_def getColorscheme_def)
  have c: "browser sampleColorscheme = [(''toolbar'', ''#101010'')]"
    "extension sampleColorscheme = [(''background'', ''#202020'')]"
    by (simp_all add: sampleColorscheme_def)
  from start_reapplies_saved [of savedState sampleColorscheme freshExtension]
    start_reapplies_saved [of sampleState sampleColorscheme freshExtension] a b
  show ?thesis
    unfolding c by blast
qed

section \<open>A new palette template (C5)\<close>

lemma map_of_deleteTemplateColors:
  "map_of (deleteTemplateColors pc t ks cc) c =
     (if c \<in> set ks \<and> templateColor pc t c = map_of cc c then None else map_of cc c)"
proof (induction ks arbitrary: cc)
  case Nil
  then show ?case by simp
next
  case (Cons k ks)
  show ?case
  proof (cases "templateColor pc t k = map_of cc k")
    case True
    then show ?thesis
      using Cons.IH [of "AList.delete k cc"]
      by (auto simp: AList.delete_conv')
  next
    case False
    then show ?thesis
      using Cons.IH [of cc] by auto
  qed
qed

lemma map_of_remaining:
  "map_of (deleteTemplateColors pc t (map fst cc) cc) c =
     (if templateColor pc t c = map_of cc c then None else map_of cc c)"
proof (cases "c \<in> set (map fst cc)")
  case True
  then show ?thesis by (simp add: map_of_deleteTemplateColors)
next
  case False
  then have "map_of cc c = None"
    by (simp add: map_of_eq_None_iff)
  with False show ?thesis by (simp add: map_of_deleteTemplateColors)
qed

text \<open>
  C5: with pywal colours \<open>pc\<close> in the state, \<open>applyUpdatedPaletteTemplate\<close> removes from
  the custom colours every colour whose value is the pywal colour the new template
  selects for it, \<open>pc[template[color]]\<close>, and keeps every other one as it was; it then
  regenerates the themes from the pywal colours and the remaining custom colours, which
  also become the stored custom colours, and sends them to the UI. With no pywal colours
  in the state it returns at once: no call is made and the state is unchanged.
\<close>

theorem applyUpdatedPaletteTemplate_removes:
  "(getPywalColors (state x) = Some pc \<and> settingsPage x = Some sp \<and> updatePage x = Some up \<longrightarrow>
      (\<exists>x'. applyUpdatedPaletteTemplate gen t x = Inr x'
         \<and> (\<forall>cc. getCustomColors (state x) = Some cc \<longrightarrow>
               (\<exists>cc'. getCustomColors (state x') = Some cc'
                  \<and> (\<forall>c. map_of cc' c =
                         (if templateColor pc t c = map_of cc c then None else map_of cc c))))
         \<and> (getCustomColors (state x) = None \<longrightarrow> getCustomColors (state x') = None)
         \<and> getColorscheme (state x') =
             Some (gen pc (getCustomColors (state x')) (getTemplate (state x)))
         \<and> newCalls x x' =
             [Theme_update (browser (gen pc (getCustomColors (state x')) (getTemplate (state x)))),
              Page_setTheme sp
                (Some (extension (gen pc (getCustomColors (state x')) (getTemplate (state x))))),
              Page_setTheme up
                (Some (extension (gen pc (getCustomColors (state x')) (getTemplate (state x)))))] @
             (if getDDGThemeEnabled (state x)
              then [DDG_setTheme (hash (gen pc (getCustomColors (state x')) (getTemplate (state x))))
                      (duckduckgo (gen pc (getCustomColors (state x')) (getTemplate (state x))))]
              else []) @
             [UI_sendCustomColors (getCustomColors (state x'))]))
   \<and> (getPywalColors (state x) = None \<longrightarrow> applyUpdatedPaletteTemplate gen t x = Inr x)"
proof (intro conjI impI)
  assume a: "getPywalColors (state x) = Some pc \<and> settingsPage x = Some sp \<and> updatePage x = Some up"
  then have p: "settingsPage x = Some sp" "updatePage x = Some up" by simp_all
  define rem where "rem = remainingCustomColors pc t (getCustomColors (state x))"
  from updateThemes_result [OF p, of gen pc rem]
  obtain x1 where r: "updateThemes gen pc rem x = Inr x1"
    and c: "calls x1 = calls x @
                [Theme_update (browser (gen pc rem (getTemplate (state x)))),
                 Page_setTheme sp (Some (extension (gen pc rem (getTemplate (state x))))),
                 Page_setTheme up (Some (extension (gen pc rem (getTemplate (state x)))))] @
                (if getDDGThemeEnabled (state x)
                 then [DDG_setTheme (hash (gen pc rem (getTemplate (state x))))
                         (duckduckgo (gen pc rem (getTemplate (state x))))]
                 else [])"
    and s: "state x1 = (state x)\<lparr>pywalColors := Some pc,
                 colorscheme := Some (gen pc rem (getTemplate (state x))),
                 customColors := rem, isApplied := True\<rparr>"
    by blast
  define x' where "x' = emit (UI_sendCustomColors rem) x1"
  have res: "applyUpdatedPaletteTemplate gen t x = Inr x'"
    using a r by (simp add: applyUpdatedPaletteTemplate_def Let_def rem_def andThen_def x'_def)
  have cust: "getCustomColors (state x') = rem"
    by (simp add: x'_def emit_simps s getCustomColors_def)
  have cs: "getColorscheme (state x') = Some (gen pc rem (getTemplate (state x)))"
    by (simp add: x'_def emit_simps s getColorscheme_def)
  have cl: "newCalls x x' =
             [Theme_update (browser (gen pc rem (getTemplate (state x)))),
              Page_setTheme sp (Some (extension (gen pc rem (getTemplate (state x))))),
              Page_setTheme up (Some (extension (gen pc rem (getTemplate (state x)))))] @
             (if getDDGThemeEnabled (state x)
              then [DDG_setTheme (hash (gen pc rem (getTemplate (state x))))
                      (duckduckgo (gen pc rem (getTemplate (state x))))]
              else []) @
             [UI_sendCustomColors rem]"
    by (simp add: x'_def emit_simps c newCalls_def)
  have some: "\<forall>cc. getCustomColors (state x) = Some cc \<longrightarrow>
               (\<exists>cc'. rem = Some cc'
                  \<and> (\<forall>c. map_of cc' c =
                         (if templateColor pc t c = map_of cc c then None else map_of cc c)))"
    by (simp add: rem_def remainingCustomColors_def map_of_remaining)
  have none: "getCustomColors (state x) = None \<longrightarrow> rem = None"
    by (simp add: rem_def remainingCustomColors_def)
  show "\<exists>x'. applyUpdatedPaletteTemplate gen t x = Inr x'
         \<and> (\<forall>cc. getCustomColors (state x) = Some cc \<longrightarrow>
               (\<exists>cc'. getCustomColors (state x') = Some cc'
                  \<and> (\<forall>c. map_of cc' c =
                         (if templateColor pc t c = map_of cc c then None else map_of cc c))))
         \<and> (getCustomColors (state x) = None \<longrightarrow> getCustomColors (state x') = None)
         \<and> getColorscheme (state x') =
             Some (gen pc (getCustomColors (state x')) (getTemplate (state x)))
         \<and> newCalls x x' =
             [Theme_update (browser (gen pc (getCustomColors (state x')) (getTemplate (state x)))),
              Page_setTheme sp
                (Some (extension (gen pc (getCustomColors (state x')) (getTemplate (state x))))),
              Page_setTheme up
                (Some (extension (gen pc (getCustomColors (state x')) (getTemplate (state x)))))] @
             (if getDDGThemeEnabled (state x)
              then [DDG_setTheme (hash (gen pc (getCustomColors (state x')) (getTemplate (state x))))
                      (duckduckgo (gen pc (getCustomColors (state x')) (getTemplate (state x))))]
              else []) @
             [UI_sendCustomColors (getCustomColors (state x'))]"
    apply (rule exI [of _ x'])
    unfolding cust
    using res cs cl some none by blast
next
  assume "getPywalColors (state x) = None"
  then show "applyUpdatedPaletteTemplate gen t x = Inr x"
    by (simp add: applyUpdatedPaletteTemplate_def Let_def)
qed

theorem applyUpdatedPaletteTemplate_removes_witness:
  "getPywalColors (state paletteExtension) = Some [''#000000'', ''#ffffff'']
   \<and> getCustomColors (state paletteExtension)
        = Some [(''background'', ''#000000''), (''foreground'', ''#abcdef'')]
   \<and> (\<exists>x' cc'. applyUpdatedPaletteTemplate sampleGenerateColorscheme samplePaletteTemplate
                paletteExtension = Inr x'
          \<and> getCustomColors (state x') = Some cc'
          \<and> map_of cc' ''background'' = None
          \<and> map_of cc' ''foreground'' = Some ''#abcdef'')
   \<and> getPywalColors (state noColorsExtension) = None
   \<and> applyUpdatedPaletteTemplate sampleGenerateColorscheme samplePaletteTemplate
        noColorsExtension = Inr noColorsExtension"
proof -
  have p: "settingsPage paletteExtension = Some SETTINGS" "updatePage paletteExtension = Some UPDATE"
    by (simp_all add: paletteExtension_def startedExtension_def)
  have pc: "getPywalColors (state paletteExtension) = Some [''#000000'', ''#ffffff'']"
    by (simp add: paletteExtension_def setCustomColors_def sampleState_def getPywalColors_def)
  have cc: "getCustomColors (state paletteExtension)
        = Some [(''background'', ''#000000''), (''foreground'', ''#abcdef'')]"
    by (simp add: paletteExtension_def setCustomColors_def getCustomColors_def)
  have n: "getPywalColors (state noColorsExtension) = None"
    by (simp add: noColorsExtension_def setColors_def getPywalColors_def)
  have t1: "templateColor [''#000000'', ''#ffffff''] samplePaletteTemplate ''background'' = Some ''#000000''"
    by (simp add: templateColor_def samplePaletteTemplate_def)
  have t2: "templateColor [''#000000'', ''#ffffff''] samplePaletteTemplate ''foreground'' = Some ''#ffffff''"
    by (simp add: templateColor_def samplePaletteTemplate_def)
  from applyUpdatedPaletteTemplate_removes [of paletteExtension "[''#000000'', ''#ffffff'']"
      SETTINGS UPDATE sampleGenerateColorscheme samplePaletteTemplate] pc p cc
  obtain x' cc' where r: "applyUpdatedPaletteTemplate sampleGenerateColorscheme samplePaletteTemplate
                paletteExtension = Inr x'"
    and g: "getCustomColors (state x') = Some cc'"
    and m: "\<forall>c. map_of cc' c =
        (if templateColor [''#000000'', ''#ffffff''] samplePaletteTemplate c
              = map_of [(''background'', ''#000000''), (''foreground'', ''#abcdef'')] c
         then None else map_of [(''background'', ''#000000''), (''foreground'', ''#abcdef'')] c)"
    by blast
  have "map_of cc' ''background'' = None" "map_of cc' ''foreground'' = Some ''#abcdef''"
    using m t1 t2 by simp_all
  moreover have "applyUpdatedPaletteTemplate sampleGenerateColorscheme samplePaletteTemplate
        noColorsExtension = Inr noColorsExtension"
    using applyUpdatedPaletteTemplate_removes [of noColorsExtension "[]" SETTINGS UPDATE
        sampleGenerateColorscheme samplePaletteTemplate] n by blast
  ultimately show ?thesis
    using pc cc n r g by blast
qed

section \<open>The font size (C6)\<close>

text \<open>
  C6: \<open>setCssFontSize\<close> asks the native app to set the font size exactly when the value
  is defined and is a number from 10 to 20, both included; the request is for userChrome
  and carries the value. For every other input (undefined, below 10, above 20, not a
  number) its only call is the error notification. In both cases the state, and with it
  the stored font size, is unchanged.
\<close>

theorem setCssFontSize_range:
  "((\<exists>target v. Native_requestFontSizeSet target v \<in> set (newCalls x (setCssFontSize optionData x)))
      \<longleftrightarrow> (\<exists>r. val optionData = Some (Num r) \<and> 10 \<le> r \<and> r \<le> 20))
   \<and> (\<forall>r. val optionData = Some (Num r) \<and> 10 \<le> r \<and> r \<le> 20 \<longrightarrow>
         newCalls x (setCssFontSize optionData x) = [Native_requestFontSizeSet UserChrome (Num r)])
   \<and> (\<not> (\<exists>r. val optionData = Some (Num r) \<and> 10 \<le> r \<and> r \<le> 20) \<longrightarrow>
         newCalls x (setCssFontSize optionData x) =
           [UI_sendNotification ''Font size error'' ''Invalid size or not set'' (Some True)])
   \<and> state (setCssFontSize optionData x) = state x
   \<and> getCssFontSize (state (setCssFontSize optionData x)) = getCssFontSize (state x)"
proof -
  have st: "state (setCssFontSize optionData x) = state x"
    by (simp add: setCssFontSize_def emit_simps split: option.splits)
  show ?thesis
  proof (cases "val optionData")
    case None
    then show ?thesis
      using st by (simp add: setCssFontSize_def emit_simps newCalls_def)
  next
    case (Some v)
    then show ?thesis
      using st by (cases v) (auto simp: setCssFontSize_def emit_simps newCalls_def)
  qed
qed

theorem setCssFontSize_range_witness:
  "val fontSize15 = Some (Num 15)
   \<and> newCalls startedExtension (setCssFontSize fontSize15 startedExtension)
       = [Native_requestFontSizeSet UserChrome (Num 15)]
   \<and> val fontSize25 = Some (Num 25)
   \<and> newCalls startedExtension (setCssFontSize fontSize25 startedExtension)
       = [UI_sendNotification ''Font size error'' ''Invalid size or not set'' (Some True)]
   \<and> getCssFontSize (state (setCssFontSize fontSize15 startedExtension)) = Num 13"
proof -
  have a: "val fontSize15 = Some (Num 15)" and b: "val fontSize25 = Some (Num 25)"
    by (simp_all add: fontSize15_def fontSize25_def)
  have f: "getCssFontSize (state startedExtension) = Num 13"
    by (simp add: startedExtension_def sampleState_def getCssFontSize_def)
  from setCssFontSize_range [of startedExtension fontSize15]
    setCssFontSize_range [of startedExtension fontSize25] a b f
  show ?thesis
    by auto
qed

section \<open>The overlay follows the current dialog (C7)\<close>

lemma closeDialog_closed:
  "currentDialog (closeDialog D p) = None \<and> \<not> overlayOpen (closeDialog D p)"
  by (simp add: closeDialog_def Let_def isOpen_overlay_def close_overlay_def
      split: option.splits)

lemma closeDialog_dialogs:
  "currentDialog p = Some d \<Longrightarrow> dialogs (closeDialog D p) = dialog_close D d (dialogs p)"
  by (simp add: closeDialog_def Let_def isOpen_overlay_def close_overlay_def)

lemma openDialog_inv:
  "overlayOpen (openDialog D dlg target p) \<longleftrightarrow> currentDialog (openDialog D dlg target p) \<noteq> None"
  by (simp add: openDialog_def Let_def isOpen_overlay_def open_overlay_def closeDialog_closed
      split: option.splits)

lemma pageStep_inv:
  "overlayOpen (pageStep D c p) \<longleftrightarrow> currentDialog (pageStep D c p) \<noteq> None"
  by (cases c) (simp_all add: openDialog_inv closeDialog_closed)

lemma runCalls_inv:
  "(overlayOpen p \<longleftrightarrow> currentDialog p \<noteq> None) \<Longrightarrow>
   (overlayOpen (runCalls D cs p) \<longleftrightarrow> currentDialog (runCalls D cs p) \<noteq> None)"
proof (induction cs arbitrary: p)
  case Nil
  then show ?case by simp
next
  case (Cons c cs)
  show ?case
    using Cons.IH [OF pageStep_inv [of D c p]] by simp
qed

text \<open>
  C7: from the initial page (no current dialog, the overlay closed), after any finite
  sequence of calls of \<open>openDialog\<close> and \<open>closeDialog\<close> the overlay is open exactly when
  there is a current dialog. And \<open>openDialog\<close> called with the dialog that is current
  (for the colorpicker: with the target it has) closes that dialog, leaves no current
  dialog and closes the overlay.
\<close>

theorem overlay_open_iff_currentDialog:
  "(overlayOpen (runCalls D cs (initialPage ds)) \<longleftrightarrow>
      currentDialog (runCalls D cs (initialPage ds)) \<noteq> None)
   \<and> (currentDialog p = Some dlg
        \<and> (dlg \<noteq> colorpicker \<or> dialog_getTarget D dlg (dialogs p) = Some target) \<longrightarrow>
      currentDialog (openDialog D dlg target p) = None
      \<and> \<not> overlayOpen (openDialog D dlg target p)
      \<and> dialogs (openDialog D dlg target p) = dialog_close D dlg (dialogs p))"
proof (intro conjI impI)
  have "overlayOpen (initialPage ds) \<longleftrightarrow> currentDialog (initialPage ds) \<noteq> None"
    by (simp add: initialPage_def)
  then show "overlayOpen (runCalls D cs (initialPage ds)) \<longleftrightarrow>
      currentDialog (runCalls D cs (initialPage ds)) \<noteq> None"
    by (rule runCalls_inv)
next
  assume a: "currentDialog p = Some dlg
        \<and> (dlg \<noteq> colorpicker \<or> dialog_getTarget D dlg (dialogs p) = Some target)"
  define p1 where "p1 = (if \<not> isOpen_overlay p then open_overlay p else p)"
  have c1: "currentDialog p1 = Some dlg" and d1: "dialogs p1 = dialogs p"
    using a by (simp_all add: p1_def open_overlay_def)
  have o: "openDialog D dlg target p = closeDialog D p1"
    using a c1 d1 by (auto simp: openDialog_def Let_def p1_def [symmetric])
  show "currentDialog (openDialog D dlg target p) = None"
    unfolding o by (simp add: closeDialog_closed)
  show "\<not> overlayOpen (openDialog D dlg target p)"
    unfolding o by (simp add: closeDialog_closed)
  show "dialogs (openDialog D dlg target p) = dialog_close D dlg (dialogs p)"
    unfolding o closeDialog_dialogs [OF c1] d1 ..
qed

theorem overlay_open_iff_currentDialog_witness:
  "currentDialog (runCalls sampleDialog [OpenDialog colorpicker 3] (initialPage (\<lambda>d. None)))
     = Some colorpicker
   \<and> overlayOpen (runCalls sampleDialog [OpenDialog colorpicker 3] (initialPage (\<lambda>d. None)))
   \<and> dialog_getTarget sampleDialog colorpicker
       (dialogs (runCalls sampleDialog [OpenDialog colorpicker 3] (initialPage (\<lambda>d. None)))) = Some 3
   \<and> currentDialog (openDialog sampleDialog colorpicker 3
       (runCalls sampleDialog [OpenDialog colorpicker 3] (initialPage (\<lambda>d. None)))) = None
   \<and> \<not> overlayOpen (openDialog sampleDialog colorpicker 3
       (runCalls sampleDialog [OpenDialog colorpicker 3] (initialPage (\<lambda>d. None))))"
proof -
  define p where "p = runCalls sampleDialog [OpenDialog colorpicker 3] (initialPage (\<lambda>d. None))"
  have c: "currentDialog p = Some colorpicker"
    by (simp add: p_def openDialog_def Let_def initialPage_def isOpen_overlay_def open_overlay_def)
  have t: "dialog_getTarget sampleDialog colorpicker (dialogs p) = Some 3"
    by (simp add: p_def openDialog_def Let_def initialPage_def isOpen_overlay_def open_overlay_def
        sampleDialog_def)
  from overlay_open_iff_currentDialog [of sampleDialog "[OpenDialog colorpicker 3]" "\<lambda>d. None"
      p colorpicker 3] c t
  show ?thesis
    unfolding p_def [symmetric] by simp
qed

section \<open>Setting cards: toggling the \<open>open\<close> attribute\<close>

lemma attributes_upd_same:
  "attributes d c name = v \<Longrightarrow>
   d\<lparr>attributes := (attributes d)(c := (attributes d c)(name := v))\<rparr> = d"
  by (cases d) (auto simp: fun_eq_iff)

text \<open>
  C8: for a card whose \<open>open\<close> attribute is absent or the empty string, one click on its
  header flips the presence of the attribute (present with the empty value becomes absent,
  absent becomes present with the empty value), and
  two clicks give back exactly the document one started from.
\<close>

theorem onSettingCardClick_toggle:
  assumes "parentNode d header = Some cardNode"
    and "getAttribute d cardNode ''open'' = None \<or> getAttribute d cardNode ''open'' = Some ''''"
  shows "\<exists>d1. onSettingCardClick header d = Inr d1
           \<and> (getAttribute d cardNode ''open'' = Some '''' \<longrightarrow> getAttribute d1 cardNode ''open'' = None)
           \<and> (getAttribute d cardNode ''open'' = None \<longrightarrow> getAttribute d1 cardNode ''open'' = Some '''')
           \<and> clickTwice header d = Inr d"
proof (cases "getAttribute d cardNode ''open''")
  case None
  then have a: "attributes d cardNode ''open'' = None"
    by (simp add: getAttribute_def)
  have "d\<lparr>attributes := (attributes d)(cardNode := (attributes d cardNode)(''open'' := None))\<rparr> = d"
    using a by (rule attributes_upd_same)
  then show ?thesis
    using assms(1) None
    by (simp add: onSettingCardClick_def clickTwice_def getAttribute_def
        setAttribute_def removeAttribute_def)
next
  case (Some v)
  with assms(2) have v: "v = ''''" by simp
  then have a: "attributes d cardNode ''open'' = Some ''''"
    using Some by (simp add: getAttribute_def)
  have "d\<lparr>attributes := (attributes d)(cardNode := (attributes d cardNode)(''open'' := Some ''''))\<rparr> = d"
    using a by (rule attributes_upd_same)
  then show ?thesis
    using assms(1) Some v
    by (simp add: onSettingCardClick_def clickTwice_def getAttribute_def
        setAttribute_def removeAttribute_def)
qed

theorem onSettingCardClick_toggle_witness:
  "parentNode sample_dom 1 = Some 0
   \<and> getAttribute sample_dom 0 ''open'' = None
   \<and> (\<exists>d1. onSettingCardClick 1 sample_dom = Inr d1
          \<and> getAttribute d1 0 ''open'' = Some ''''
          \<and> clickTwice 1 sample_dom = Inr sample_dom)"
proof -
  have p: "parentNode sample_dom 1 = Some 0"
    by (simp add: sample_dom_def)
  have a: "getAttribute sample_dom 0 ''open'' = None"
    by (simp add: sample_dom_def getAttribute_def)
  from onSettingCardClick_toggle [OF p disjI1 [OF a]] a p show ?thesis
    by auto
qed

end
